theory Spec2Isabelle
  imports Main
begin

section \<open>JavaScript values and string primitives used by \<open>index.js\<close>\<close>

text \<open>
  The fields of \<open>mailOptions\<close> and of \<open>this.options.auth\<close> are strings that may be
  absent. A string is a list of bytes (the UTF-8 encoding that \<open>Buffer.from\<close> and
  \<open>data.toString()\<close> use); every character the code inspects (\<open>@\<close>, \<open>2\<close>, \<open>3\<close>)
  is ASCII, so inspecting bytes and inspecting characters agree.
\<close>

datatype jsval = Undefined | Null | Str string

datatype js_error = Error string | TypeError | RangeError

definition CRLF :: string where
  "CRLF = [CHR 0x0D, CHR 0x0A]"

text \<open>A value inside a template literal: \<open>`${v}`\<close>.\<close>

primrec template :: "jsval \<Rightarrow> string" where
  "template Undefined = ''undefined''"
| "template Null = ''null''"
| "template (Str s) = s"

text \<open>\<open>a || b\<close>: the left operand unless it is falsy (absent or the empty string).\<close>

primrec truthy :: "jsval \<Rightarrow> bool" where
  "truthy Undefined = False"
| "truthy Null = False"
| "truthy (Str s) = (s \<noteq> [])"

definition js_or :: "jsval \<Rightarrow> jsval \<Rightarrow> jsval" where
  "js_or a b = (if truthy a then a else b)"

text \<open>\<open>s.split(sep)\<close> for a one-character separator: never the empty array.\<close>

fun js_split :: "char \<Rightarrow> string \<Rightarrow> string list" where
  "js_split sep [] = [[]]"
| "js_split sep (c # cs) =
     (if c = sep then [] # js_split sep cs
      else (case js_split sep cs of
              [] \<Rightarrow> [[c]]
            | p # ps \<Rightarrow> (c # p) # ps))"

text \<open>\<open>xs[i]\<close>: reading past the end of an array gives \<open>undefined\<close>.\<close>

definition at_index :: "string list \<Rightarrow> nat \<Rightarrow> jsval" where
  "at_index xs i = (if i < length xs then Str (xs ! i) else Undefined)"

text \<open>\<open>v.split('@')[1]\<close>: calling \<open>split\<close> on an absent value throws a TypeError.\<close>

definition split_domain :: "jsval \<Rightarrow> js_error + jsval" where
  "split_domain v =
     (case v of
        Str s \<Rightarrow> Inr (at_index (js_split (CHR ''@'') s) 1)
      | _ \<Rightarrow> Inl TypeError)"

text \<open>\<open>s.startsWith(p)\<close>.\<close>

definition startsWith :: "string \<Rightarrow> string \<Rightarrow> bool" where
  "startsWith s p = (take (length p) s = p)"

text \<open>The decimal rendering of \<open>Date.now()\<close> inside a template literal.\<close>

definition digit :: "nat \<Rightarrow> char" where
  "digit d = ''0123456789'' ! d"

fun show_nat :: "nat \<Rightarrow> string" where
  "show_nat n = (if n < 10 then [digit n] else show_nat (n div 10) @ [digit (n mod 10)])"

declare show_nat.simps [simp del]

text \<open>\<open>Buffer.from(s).toString('base64')\<close>: standard base64 with padding.\<close>

definition b64_char :: "nat \<Rightarrow> char" where
  "b64_char i =
     ''ABCDEFGHIJKLMNOPQRSTUVWXYZabcdefghijklmnopqrstuvwxyz0123456789+/'' ! i"

fun base64 :: "nat list \<Rightarrow> string" where
  "base64 [] = []"
| "base64 [a] =
     [b64_char (a div 4), b64_char ((a mod 4) * 16), CHR ''='', CHR ''='']"
| "base64 [a, b] =
     [b64_char (a div 4), b64_char ((a mod 4) * 16 + b div 16),
      b64_char ((b mod 16) * 4), CHR ''='']"
| "base64 (a # b # c # rest) =
     [b64_char (a div 4), b64_char ((a mod 4) * 16 + b div 16),
      b64_char ((b mod 16) * 4 + c div 64), b64_char (c mod 64)] @ base64 rest"

text \<open>\<open>Buffer.from\<close> of an absent value throws a TypeError.\<close>

definition to_base64 :: "jsval \<Rightarrow> js_error + string" where
  "to_base64 v =
     (case v of
        Str s \<Rightarrow> Inr (base64 (map of_char s))
      | _ \<Rightarrow> Inl TypeError)"


section \<open>The envelope: \<open>messageId\<close> and \<open>commands\<close>\<close>

text \<open>
  \<open>this.options\<close> as the constructor fills it from the environment. A variable that
  is not set reads as \<open>undefined\<close>; \<open>port\<close> is \<open>parseInt(process.env.SMTP_PORT)\<close>, an
  integer or, for an unset or non-numeric variable, \<open>NaN\<close> (here \<open>None\<close>). The flags
  \<open>debug\<close>, which only logs, and \<open>secure\<close>, which nothing reads, are left out.
\<close>

record options =
  localMode :: bool
  host :: jsval
  port :: "int option"
  auth_user :: jsval
  auth_pass :: jsval

record mailOptions =
  mail_from :: jsval
  mail_to :: jsval
  mail_subject :: jsval
  mail_text :: jsval
  mail_html :: jsval

text \<open>\<open>`<${Date.now()}@${mailOptions.from.split('@')[1]}>`\<close>\<close>

definition make_messageId :: "nat \<Rightarrow> jsval \<Rightarrow> js_error + string" where
  "make_messageId now frm =
     (case split_domain frm of
        Inl e \<Rightarrow> Inl e
      | Inr d \<Rightarrow> Inr (''<'' @ show_nat now @ ''@'' @ template d @ ''>''))"

text \<open>The eighth command: header block, blank line, body, terminator.\<close>

definition data_payload :: "mailOptions \<Rightarrow> string \<Rightarrow> string" where
  "data_payload mo mid =
     ''From: '' @ template (mail_from mo) @ CRLF @
     ''To: '' @ template (mail_to mo) @ CRLF @
     ''Subject: '' @ template (mail_subject mo) @ CRLF @
     ''Message-ID: '' @ mid @ CRLF @
     ''Content-Type: text/html; charset=utf-8'' @ CRLF @
     CRLF @
     template (js_or (mail_html mo) (mail_text mo)) @ CRLF @
     ''.'' @ CRLF"

text \<open>The array literal \<open>commands\<close>; its elements are evaluated in order.\<close>

definition make_commands :: "options \<Rightarrow> mailOptions \<Rightarrow> string \<Rightarrow> js_error + string list" where
  "make_commands opts mo mid =
     (case split_domain (auth_user opts) of
        Inl e \<Rightarrow> Inl e
      | Inr d \<Rightarrow>
          (case to_base64 (auth_user opts) of
             Inl e \<Rightarrow> Inl e
           | Inr u64 \<Rightarrow>
               (case to_base64 (auth_pass opts) of
                  Inl e \<Rightarrow> Inl e
                | Inr p64 \<Rightarrow>
                    Inr [''EHLO '' @ template d @ CRLF,
                         ''AUTH LOGIN'' @ CRLF,
                         u64 @ CRLF,
                         p64 @ CRLF,
                         ''MAIL FROM:<'' @ template (auth_user opts) @ ''>'' @ CRLF,
                         ''RCPT TO:<'' @ template (mail_to mo) @ ''>'' @ CRLF,
                         ''DATA'' @ CRLF,
                         data_payload mo mid,
                         ''QUIT'' @ CRLF])))"

text \<open>
  \<open>sendEmail\<close> builds the \<open>from\<close> field it passes to \<open>sendMail\<close> as
  \<open>`"${senderName}" <${process.env.SMTP_USER}>`\<close>.
\<close>

definition sendEmail_from :: "string \<Rightarrow> jsval \<Rightarrow> string" where
  "sendEmail_from senderName smtp_user =
     [CHR 0x22] @ senderName @ [CHR 0x22] @ '' <'' @ template smtp_user @ ''>''"


section \<open>The session: socket calls, the promise, the event handlers\<close>

datatype io = TlsConnect | SetTimeout nat | Write string | End

datatype outcome = Pending | Resolved string | Rejected js_error

record session =
  stage :: nat
  messageId :: string
  commands :: "string list"
  sock :: "io list"
  outcome :: outcome

text \<open>A promise settles once: \<open>resolve\<close> and \<open>reject\<close> on a settled promise do nothing.\<close>

definition resolve :: "string \<Rightarrow> session \<Rightarrow> session" where
  "resolve v s = (if outcome s = Pending then s\<lparr>outcome := Resolved v\<rparr> else s)"

definition reject :: "js_error \<Rightarrow> session \<Rightarrow> session" where
  "reject e s = (if outcome s = Pending then s\<lparr>outcome := Rejected e\<rparr> else s)"

definition socket_end :: "session \<Rightarrow> session" where
  "socket_end s = s\<lparr>sock := sock s @ [End]\<rparr>"

definition socket_write :: "string \<Rightarrow> session \<Rightarrow> session" where
  "socket_write c s = s\<lparr>sock := sock s @ [Write c]\<rparr>"

text \<open>The test of the \<open>data\<close> handler on \<open>response = data.toString()\<close>.\<close>

definition isPositive :: "string \<Rightarrow> bool" where
  "isPositive response =
     (startsWith response ''2'' \<or> startsWith response ''3'' \<or> startsWith response ''334'')"

definition on_data :: "string \<Rightarrow> session \<Rightarrow> session" where
  "on_data response s =
     (if isPositive response then
        (if stage s < length (commands s)
         then (socket_write (commands s ! stage s) s)\<lparr>stage := stage s + 1\<rparr>
         else s)
      else reject (Error (''SMTP Error: '' @ response)) (socket_end s))"

definition on_timeout :: "session \<Rightarrow> session" where
  "on_timeout s = reject (Error ''SMTP connection timeout'') (socket_end s)"

definition on_error :: "js_error \<Rightarrow> session \<Rightarrow> session" where
  "on_error err s = reject err s"

definition on_close :: "session \<Rightarrow> session" where
  "on_close s =
     (if stage s \<ge> length (commands s) - 1
      then resolve (messageId s) s
      else reject (Error ''SMTP connection closed prematurely'') s)"

datatype event = Data string | Timeout | SockError js_error | Close

fun handle :: "event \<Rightarrow> session \<Rightarrow> session" where
  "handle (Data d) s = on_data d s"
| "handle Timeout s = on_timeout s"
| "handle (SockError err) s = on_error err s"
| "handle Close s = on_close s"

fun run :: "session \<Rightarrow> event list \<Rightarrow> session" where
  "run s [] = s"
| "run s (e # es) = run (handle e s) es"

text \<open>
  \<open>tls.connect\<close> checks the port before it does anything else: a port that is not an
  integer from 0 to 65535 makes it throw a RangeError at once, with no socket opened.
  An absent host is not an error, the connection then goes to \<open>localhost\<close>.
\<close>

definition validPort :: "int option \<Rightarrow> bool" where
  "validPort p = (case p of None \<Rightarrow> False | Some n \<Rightarrow> 0 \<le> n \<and> n \<le> 65535)"

text \<open>
  The statements of the promise executor after the socket is set up: the stage counter,
  \<open>messageId\<close> and \<open>commands\<close>. An exception thrown here rejects the promise before
  any handler is attached.
\<close>

definition build_session :: "options \<Rightarrow> mailOptions \<Rightarrow> nat \<Rightarrow> js_error + session" where
  "build_session opts mo now =
     (case make_messageId now (mail_from mo) of
        Inl e \<Rightarrow> Inl e
      | Inr mid \<Rightarrow>
          (case make_commands opts mo mid of
             Inl e \<Rightarrow> Inl e
           | Inr cs \<Rightarrow>
               Inr \<lparr>stage = 0, messageId = mid, commands = cs, sock = [], outcome = Pending\<rparr>))"

text \<open>
  The promise executor of \<open>_sendViaHostinger\<close>: \<open>tls.connect\<close> first, which may throw;
  then \<open>socket.setTimeout\<close>; then the session is built. The first component lists the
  socket calls made.
\<close>

definition sendViaHostinger :: "options \<Rightarrow> mailOptions \<Rightarrow> nat \<Rightarrow> io list \<times> (js_error + session)" where
  "sendViaHostinger opts mo now =
     (if validPort (port opts)
      then ([TlsConnect, SetTimeout 10000], build_session opts mo now)
      else ([], Inl RangeError))"

text \<open>
  \<open>sendMail\<close>: in local mode the mail is pushed on \<open>emailStore\<close> and the call returns
  \<open>Date.now().toString()\<close> as id; otherwise it is \<open>_sendViaHostinger\<close>, whose
  rejection is logged and rethrown unchanged.
\<close>

datatype started = Stored string | Smtp "io list" "js_error + session"

definition sendMail :: "options \<Rightarrow> mailOptions \<Rightarrow> nat \<Rightarrow> started" where
  "sendMail opts mo now =
     (if localMode opts then Stored (show_nat now)
      else (case sendViaHostinger opts mo now of (calls, r) \<Rightarrow> Smtp calls r))"

text \<open>
  What reaches the wire: a Node socket sends nothing that is written after
  \<open>socket.end()\<close>, so the bytes transmitted are the writes before the first \<open>End\<close>.
\<close>

fun transmitted :: "io list \<Rightarrow> string list" where
  "transmitted [] = []"
| "transmitted (Write c # r) = c # transmitted r"
| "transmitted (End # r) = []"
| "transmitted (_ # r) = transmitted r"

fun written :: "io list \<Rightarrow> string list" where
  "written [] = []"
| "written (Write c # r) = c # written r"
| "written (_ # r) = written r"

text \<open>
  The invariant of the \<open>data\<close> handler: the stage pointer stays within the command
  list, and the writes made so far are the commands below the stage pointer, in order.
\<close>

definition session_inv :: "session \<Rightarrow> bool" where
  "session_inv s \<longleftrightarrow>
     stage s \<le> length (commands s) \<and> written (sock s) = take (stage s) (commands s)"


section \<open>A concrete session\<close>

text \<open>
  One send as the route \<open>/send-emails\<close> issues it, and the replies of a server that
  accepts the mail (greeting, then one reply per command).
\<close>

definition demo_options :: options where
  "demo_options =
     \<lparr>localMode = False, host = Str ''smtp.example.com'', port = Some 465,
      auth_user = Str ''user@example.com'', auth_pass = Str ''secret''\<rparr>"

definition demo_mail :: mailOptions where
  "demo_mail =
     \<lparr>mail_from = Str (sendEmail_from ''Alice'' (Str ''user@example.com'')),
      mail_to = Str ''bob@example.org'', mail_subject = Str ''Hi'',
      mail_text = Str ''Hello'', mail_html = Str ''Hello''\<rparr>"

definition demo_now :: nat where
  "demo_now = 1700000000000"

definition demo_session :: session where
  "demo_session = projr (snd (sendViaHostinger demo_options demo_mail demo_now))"

definition happy_replies :: "string list" where
  "happy_replies =
     [''220 ready'' @ CRLF, ''250 ok'' @ CRLF, ''334 VXNlcm5hbWU6'' @ CRLF,
      ''334 UGFzc3dvcmQ6'' @ CRLF, ''235 ok'' @ CRLF, ''250 ok'' @ CRLF,
      ''250 ok'' @ CRLF, ''354 go'' @ CRLF, ''250 queued'' @ CRLF, ''221 bye'' @ CRLF]"


text \<open>A reply that refuses the recipient.\<close>

definition relay_denied :: string where
  "relay_denied = ''550 Relay denied'' @ CRLF"


text \<open>The same send with the recipient absent, and with no HTML body.\<close>

definition no_recipient_session :: session where
  "no_recipient_session =
     projr (snd (sendViaHostinger demo_options (demo_mail\<lparr>mail_to := Undefined\<rparr>) demo_now))"

definition plain_session :: session where
  "plain_session =
     projr (snd (sendViaHostinger demo_options (demo_mail\<lparr>mail_html := Undefined\<rparr>) demo_now))"

text \<open>
  The pattern the specification gives for message identifiers: an opening angle
  bracket, a non-empty run of decimal digits, an at sign, a non-empty run of characters
  other than the at sign and the closing angle bracket, and a closing angle bracket at
  the very end.
\<close>

definition is_digit :: "char \<Rightarrow> bool" where
  "is_digit c = (c \<in> set ''0123456789'')"

definition spec_messageId_pattern :: "string \<Rightarrow> bool" where
  "spec_messageId_pattern s =
     (case s of
        [] \<Rightarrow> False
      | c # r \<Rightarrow>
          c = CHR ''<'' \<and>
          takeWhile is_digit r \<noteq> [] \<and>
          (case dropWhile is_digit r of
             [] \<Rightarrow> False
           | a # t \<Rightarrow>
               a = CHR ''@'' \<and> t \<noteq> [] \<and> last t = CHR ''>'' \<and> butlast t \<noteq> [] \<and>
               list_all (\<lambda>x. x \<noteq> CHR ''@'' \<and> x \<noteq> CHR ''>'') (butlast t)))"


section \<open>Basic facts\<close>

lemmas handler_defs = on_data_def on_timeout_def on_error_def on_close_def
  reject_def resolve_def socket_end_def socket_write_def

lemma isPositive_iff:
  "isPositive r \<longleftrightarrow> (\<exists>c rest. r = c # rest \<and> (c = CHR ''2'' \<or> c = CHR ''3''))"
  by (cases r) (auto simp: isPositive_def startsWith_def)

lemma written_append: "written (xs @ ys) = written xs @ written ys"
  by (induction xs rule: written.induct) simp_all

lemma transmitted_append:
  "transmitted (xs @ ys) =
     (if End \<in> set xs then transmitted xs else transmitted xs @ transmitted ys)"
  by (induction xs rule: transmitted.induct) simp_all

lemma transmitted_eq_written: "End \<notin> set xs \<Longrightarrow> transmitted xs = written xs"
  by (induction xs rule: transmitted.induct) simp_all

lemma run_append: "run s (xs @ ys) = run (run s xs) ys"
  by (induction xs arbitrary: s) simp_all

lemma handle_commands [simp]: "commands (handle e s) = commands s"
  by (cases e) (simp_all add: handler_defs)

lemma handle_messageId [simp]: "messageId (handle e s) = messageId s"
  by (cases e) (simp_all add: handler_defs)

lemma run_commands [simp]: "commands (run s es) = commands s"
  by (induction es arbitrary: s) simp_all

lemma run_messageId [simp]: "messageId (run s es) = messageId s"
  by (induction es arbitrary: s) simp_all

lemma handle_stage:
  "stage (handle e s) =
     (if (\<exists>d. e = Data d \<and> isPositive d) \<and> stage s < length (commands s)
      then stage s + 1 else stage s)"
  by (cases e) (simp_all add: handler_defs)

lemma handle_settled: "outcome s \<noteq> Pending \<Longrightarrow> outcome (handle e s) = outcome s"
  by (cases e) (simp_all add: handler_defs)

lemma run_settled: "outcome s \<noteq> Pending \<Longrightarrow> outcome (run s es) = outcome s"
  by (induction es arbitrary: s) (simp_all add: handle_settled)

lemma handle_sock_grows: "\<exists>ys. sock (handle e s) = sock s @ ys"
  by (cases e) (simp_all add: handler_defs)

lemma run_sock_grows: "\<exists>ys. sock (run s es) = sock s @ ys"
proof (induction es arbitrary: s)
  case Nil
  then show ?case by simp
next
  case (Cons e es)
  obtain ys where 1: "sock (handle e s) = sock s @ ys"
    using handle_sock_grows by blast
  obtain zs where 2: "sock (run (handle e s) es) = sock (handle e s) @ zs"
    using Cons.IH by blast
  show ?case using 1 2 by simp
qed

lemma run_transmitted_ended:
  "End \<in> set (sock s) \<Longrightarrow> transmitted (sock (run s es)) = transmitted (sock s)"
  using run_sock_grows [of s es] by (auto simp: transmitted_append)

lemma handle_inv: "session_inv s \<Longrightarrow> session_inv (handle e s)"
  by (cases e) (auto simp: session_inv_def handler_defs written_append take_Suc_conv_app_nth)

lemma run_inv: "session_inv s \<Longrightarrow> session_inv (run s es)"
  by (induction es arbitrary: s) (simp_all add: handle_inv)

lemma run_data_stage:
  "stage s \<le> length (commands s) \<Longrightarrow>
   stage (run s (map Data ds)) =
     min (stage s + length (filter isPositive ds)) (length (commands s))"
  by (induction ds arbitrary: s) (auto simp: on_data_def reject_def socket_end_def socket_write_def)

lemma run_data_transmitted:
  "session_inv s \<Longrightarrow> End \<notin> set (sock s) \<Longrightarrow>
   transmitted (sock (run s (map Data ds))) =
     take (min (stage s + length (takeWhile isPositive ds)) (length (commands s))) (commands s)"
proof (induction ds arbitrary: s)
  case Nil
  then show ?case by (simp add: session_inv_def transmitted_eq_written)
next
  case (Cons d ds)
  show ?case
  proof (cases "isPositive d")
    case True
    have w: "session_inv (on_data d s)"
      using handle_inv [OF Cons.prems(1), of "Data d"] by simp
    have e: "End \<notin> set (sock (on_data d s))"
      using Cons.prems(2) True by (simp add: on_data_def socket_write_def)
    show ?thesis
      using Cons.IH [OF w e] True Cons.prems(1)
      by (auto simp: on_data_def socket_write_def session_inv_def)
  next
    case False
    have e: "End \<in> set (sock (on_data d s))"
      using False by (simp add: on_data_def reject_def socket_end_def)
    have "transmitted (sock (on_data d s)) = take (stage s) (commands s)"
      using False Cons.prems
      by (simp add: on_data_def reject_def socket_end_def transmitted_append
          transmitted_eq_written session_inv_def)
    then show ?thesis
      using run_transmitted_ended [OF e] False Cons.prems(1) by (simp add: session_inv_def)
  qed
qed

lemma run_data_pending:
  "list_all isPositive ds \<Longrightarrow> outcome (run s (map Data ds)) = outcome s"
  by (induction ds arbitrary: s) (auto simp: on_data_def socket_write_def)

lemma run_data_no_end:
  "list_all isPositive ds \<Longrightarrow> End \<notin> set (sock s) \<Longrightarrow>
   End \<notin> set (sock (run s (map Data ds)))"
  by (induction ds arbitrary: s) (auto simp: on_data_def socket_write_def)

lemma filter_all_positive: "list_all isPositive ds \<Longrightarrow> filter isPositive ds = ds"
  by (simp add: list_all_iff)

lemma make_commands_length: "make_commands opts mo mid = Inr cs \<Longrightarrow> length cs = 9"
  by (auto simp: make_commands_def split: sum.splits)

lemma started_fresh:
  assumes "sendViaHostinger opts mo now = (calls, Inr s)"
  shows "stage s = 0" "sock s = []" "outcome s = Pending" "length (commands s) = 9"
    "session_inv s"
  using assms
  by (auto simp: sendViaHostinger_def build_session_def session_inv_def make_commands_length
      split: sum.splits if_splits)

lemma demo_started:
  "sendViaHostinger demo_options demo_mail demo_now =
     ([TlsConnect, SetTimeout 10000], Inr demo_session)"
  by (simp add: demo_session_def sendViaHostinger_def build_session_def validPort_def
      make_messageId_def make_commands_def
      split_domain_def to_base64_def demo_options_def demo_mail_def at_index_def
      sendEmail_from_def)

lemma happy_positive: "list_all isPositive happy_replies"
  by (simp add: happy_replies_def isPositive_def startsWith_def)

lemma happy_length: "length happy_replies = 10"
  by (simp add: happy_replies_def)

lemma demo_commands:
  "commands demo_session =
     [''EHLO example.com'' @ CRLF, ''AUTH LOGIN'' @ CRLF,
      ''dXNlckBleGFtcGxlLmNvbQ=='' @ CRLF, ''c2VjcmV0'' @ CRLF,
      ''MAIL FROM:<user@example.com>'' @ CRLF, ''RCPT TO:<bob@example.org>'' @ CRLF,
      ''DATA'' @ CRLF,
      data_payload demo_mail ''<1700000000000@example.com>>'',
      ''QUIT'' @ CRLF]"
  by (simp add: demo_session_def sendViaHostinger_def build_session_def validPort_def
      make_messageId_def make_commands_def
      split_domain_def to_base64_def demo_options_def demo_mail_def at_index_def demo_now_def
      sendEmail_from_def show_nat.simps digit_def b64_char_def)

lemma relay_denied_negative: "\<not> isPositive relay_denied"
  by (simp add: relay_denied_def isPositive_def startsWith_def)

lemma take_happy_positive: "list_all isPositive (take n happy_replies)"
  using happy_positive by (auto simp: list_all_iff dest: in_set_takeD)

lemma demo_messageId: "messageId demo_session = ''<1700000000000@example.com>>''"
  by (simp add: demo_session_def sendViaHostinger_def build_session_def validPort_def
      make_messageId_def make_commands_def
      split_domain_def to_base64_def demo_options_def demo_mail_def at_index_def demo_now_def
      sendEmail_from_def show_nat.simps digit_def)


lemma run_positives:
  assumes "sendViaHostinger opts mo now = (calls, Inr s0)" and "list_all isPositive ds"
  shows "stage (run s0 (map Data ds)) = min (length ds) 9"
    and "outcome (run s0 (map Data ds)) = Pending"
    and "written (sock (run s0 (map Data ds))) = take (min (length ds) 9) (commands s0)"
proof -
  note f = started_fresh [OF assms(1)]
  show st: "stage (run s0 (map Data ds)) = min (length ds) 9"
    using run_data_stage [of s0 ds] f by (simp add: filter_all_positive [OF assms(2)])
  show "outcome (run s0 (map Data ds)) = Pending"
    using run_data_pending [OF assms(2), of s0] f by simp
  have "session_inv (run s0 (map Data ds))"
    using run_inv f(5) by blast
  then show "written (sock (run s0 (map Data ds))) = take (min (length ds) 9) (commands s0)"
    using st by (simp add: session_inv_def)
qed

lemma on_close_pending:
  "outcome s = Pending \<Longrightarrow>
   on_close s =
     s\<lparr>outcome := (if length (commands s) - 1 \<le> stage s then Resolved (messageId s)
                    else Rejected (Error ''SMTP connection closed prematurely''))\<rparr>"
  by (simp add: on_close_def resolve_def reject_def)


lemma isPositive_append: "a \<noteq> [] \<Longrightarrow> isPositive (a @ b) = isPositive a"
  by (cases a) (simp_all add: isPositive_iff)

lemma on_data_positive:
  "isPositive r \<Longrightarrow>
   on_data r s =
     (if stage s < length (commands s)
      then s\<lparr>sock := sock s @ [Write (commands s ! stage s)], stage := stage s + 1\<rparr>
      else s)"
  by (simp add: on_data_def socket_write_def)

lemma on_data_negative:
  "\<not> isPositive r \<Longrightarrow>
   on_data r s =
     (if outcome s = Pending
      then s\<lparr>sock := sock s @ [End], outcome := Rejected (Error (''SMTP Error: '' @ r))\<rparr>
      else s\<lparr>sock := sock s @ [End]\<rparr>)"
  by (simp add: on_data_def reject_def socket_end_def)

lemma settled_close: "outcome s \<noteq> Pending \<Longrightarrow> on_close s = s"
  by (simp add: on_close_def resolve_def reject_def)

lemma settled_error: "outcome s \<noteq> Pending \<Longrightarrow> on_error err s = s"
  by (simp add: on_error_def reject_def)


lemma js_split_no_sep: "sep \<notin> set xs \<Longrightarrow> js_split sep xs = [xs]"
  by (induction xs) auto

lemma js_split_at_sep:
  "sep \<notin> set xs \<Longrightarrow> js_split sep (xs @ sep # ys) = xs # js_split sep ys"
  by (induction xs) auto

lemma split_domain_address:
  "CHR ''@'' \<notin> set l \<Longrightarrow> CHR ''@'' \<notin> set d \<Longrightarrow>
   split_domain (Str (l @ ''@'' @ d)) = Inr (Str d)"
  by (simp add: split_domain_def js_split_at_sep js_split_no_sep at_index_def)

lemma digit_is_digit: "d < 10 \<Longrightarrow> is_digit (digit d)"
proof -
  assume "d < 10"
  then have "d \<in> {0, 1, 2, 3, 4, 5, 6, 7, 8, 9}" by auto
  then show ?thesis by (auto simp: is_digit_def digit_def)
qed

lemma show_nat_digits: "list_all is_digit (show_nat n)"
proof (induction n rule: show_nat.induct)
  case (1 n)
  show ?case
  proof (cases "n < 10")
    case True
    then show ?thesis by (simp add: show_nat.simps [of n] digit_is_digit)
  next
    case False
    then show ?thesis
      using 1 by (simp add: show_nat.simps [of n] digit_is_digit)
  qed
qed

lemma at_not_digit: "\<not> is_digit (CHR ''@'')"
  by (simp add: is_digit_def)

lemma digits_then_at:
  "list_all is_digit ds \<Longrightarrow>
   takeWhile is_digit (ds @ CHR ''@'' # t) = ds \<and>
   dropWhile is_digit (ds @ CHR ''@'' # t) = CHR ''@'' # t"
  by (induction ds) (simp_all add: at_not_digit)


lemma started_present:
  assumes "auth_user opts = Str u" and "auth_pass opts = Str p" and "mail_from mo = Str f"
  shows "build_session opts mo now =
     (Inr \<lparr>stage = 0,
           messageId = ''<'' @ show_nat now @ ''@'' @
             template (at_index (js_split (CHR ''@'') f) 1) @ ''>'',
           commands =
             [''EHLO '' @ template (at_index (js_split (CHR ''@'') u) 1) @ CRLF,
              ''AUTH LOGIN'' @ CRLF,
              base64 (map of_char u) @ CRLF,
              base64 (map of_char p) @ CRLF,
              ''MAIL FROM:<'' @ u @ ''>'' @ CRLF,
              ''RCPT TO:<'' @ template (mail_to mo) @ ''>'' @ CRLF,
              ''DATA'' @ CRLF,
              data_payload mo (''<'' @ show_nat now @ ''@'' @
                template (at_index (js_split (CHR ''@'') f) 1) @ ''>''),
              ''QUIT'' @ CRLF],
           sock = [], outcome = Pending\<rparr>)"
  using assms
  by (simp add: build_session_def make_messageId_def make_commands_def split_domain_def
      to_base64_def)

lemma started_commands:
  assumes "sendViaHostinger opts mo now = (calls, Inr s)"
  shows "\<exists>d u64 p64.
           commands s =
             [''EHLO '' @ d @ CRLF, ''AUTH LOGIN'' @ CRLF, u64 @ CRLF, p64 @ CRLF,
              ''MAIL FROM:<'' @ template (auth_user opts) @ ''>'' @ CRLF,
              ''RCPT TO:<'' @ template (mail_to mo) @ ''>'' @ CRLF,
              ''DATA'' @ CRLF, data_payload mo (messageId s), ''QUIT'' @ CRLF]"
  using assms
  by (auto simp: sendViaHostinger_def build_session_def make_commands_def
      split: sum.splits if_splits)

lemma build_error_iff:
  "(\<exists>e. build_session opts mo now = Inl e) \<longleftrightarrow>
     mail_from mo \<in> {Undefined, Null} \<or> auth_user opts \<in> {Undefined, Null} \<or>
     auth_pass opts \<in> {Undefined, Null}"
  by (cases "mail_from mo"; cases "auth_user opts"; cases "auth_pass opts")
     (simp_all add: build_session_def make_messageId_def make_commands_def split_domain_def
      to_base64_def)

lemma build_error_type:
  "build_session opts mo now = Inl e \<Longrightarrow> e = TypeError"
  by (cases "mail_from mo"; cases "auth_user opts"; cases "auth_pass opts")
     (simp_all add: build_session_def make_messageId_def make_commands_def split_domain_def
      to_base64_def)

lemma ends_crlf_app: "\<exists>b. y = b @ CRLF \<Longrightarrow> \<exists>b. x @ y = b @ CRLF"
  by (metis append.assoc)

lemma ends_crlf_self: "\<exists>b. CRLF = b @ CRLF"
  by (rule exI [of _ "[]"]) simp


lemma no_recipient_started:
  "sendViaHostinger demo_options (demo_mail\<lparr>mail_to := Undefined\<rparr>) demo_now =
     ([TlsConnect, SetTimeout 10000], Inr no_recipient_session)"
  by (simp add: no_recipient_session_def sendViaHostinger_def build_session_def validPort_def
      make_messageId_def
      make_commands_def split_domain_def to_base64_def demo_options_def demo_mail_def
      at_index_def sendEmail_from_def)

lemma plain_started:
  "sendViaHostinger demo_options (demo_mail\<lparr>mail_html := Undefined\<rparr>) demo_now =
     ([TlsConnect, SetTimeout 10000], Inr plain_session)"
  by (simp add: plain_session_def sendViaHostinger_def build_session_def validPort_def
      make_messageId_def
      make_commands_def split_domain_def to_base64_def demo_options_def demo_mail_def
      at_index_def sendEmail_from_def)


lemma messageId_of_plain_from:
  "make_messageId demo_now (Str ''user@example.com'') = Inr ''<1700000000000@example.com>'' \<and>
   spec_messageId_pattern ''<1700000000000@example.com>''"
  by (simp add: make_messageId_def split_domain_def at_index_def demo_now_def
      show_nat.simps digit_def spec_messageId_pattern_def is_digit_def)


section \<open>The stage pointer and the commands sent\<close>

text \<open>
  C1 (as amended). The stage pointer moves only in the \<open>data\<close> handler, by exactly one,
  on a Positive delivery while the stage is below 9; every other event, and a Positive
  delivery at stage 9, leaves it alone. So after any sequence of deliveries the stage is
  the number of Positive deliveries capped at 9, the commands written are the first
  \<open>stage\<close> commands in order (none skipped, none repeated), and the commands that reach
  the wire are as many as the Positive deliveries before the first Negative one, capped
  at 9.
\<close>

theorem stage_follows_positive_replies:
  assumes "sendViaHostinger opts mo now = (calls, Inr s0)"
  shows "(\<forall>e s. stage (handle e s) =
            (if (\<exists>d. e = Data d \<and> isPositive d) \<and> stage s < length (commands s)
             then stage s + 1 else stage s)) \<and>
         length (commands s0) = 9 \<and>
         stage (run s0 (map Data ds)) = min (length (filter isPositive ds)) 9 \<and>
         written (sock (run s0 (map Data ds))) =
           take (min (length (filter isPositive ds)) 9) (commands s0) \<and>
         transmitted (sock (run s0 (map Data ds))) =
           take (min (length (takeWhile isPositive ds)) 9) (commands s0)"
proof -
  note f = started_fresh [OF assms]
  have st: "stage (run s0 (map Data ds)) = min (length (filter isPositive ds)) 9"
    using run_data_stage [of s0 ds] f by simp
  have "session_inv (run s0 (map Data ds))"
    using run_inv f(5) by blast
  then have wr: "written (sock (run s0 (map Data ds))) =
      take (min (length (filter isPositive ds)) 9) (commands s0)"
    using st by (simp add: session_inv_def)
  have tr: "transmitted (sock (run s0 (map Data ds))) =
      take (min (length (takeWhile isPositive ds)) 9) (commands s0)"
    using run_data_transmitted [OF f(5), of ds] f by simp
  show ?thesis
    using handle_stage f(4) st wr tr by blast
qed

theorem stage_follows_positive_replies_witness:
  "stage (run demo_session (map Data happy_replies)) = 9 \<and>
   written (sock (run demo_session (map Data happy_replies))) = commands demo_session"
  using stage_follows_positive_replies [OF demo_started, of happy_replies]
  by (simp add: happy_length filter_all_positive [OF happy_positive])

text \<open>
  C1 as stated fails on the replies of a server that accepts the mail: all ten replies
  are Positive, the tenth (the reply to QUIT) does not move the stage pointer, and nine
  commands are written, not ten.
\<close>

theorem tenth_positive_reply_sends_nothing:
  "length (filter isPositive happy_replies) = 10 \<and>
   stage (run demo_session (map Data (take 9 happy_replies))) = 9 \<and>
   stage (run demo_session (map Data happy_replies)) = 9 \<and>
   length (written (sock (run demo_session (map Data happy_replies)))) = 9 \<and>
   length (transmitted (sock (run demo_session (map Data happy_replies)))) \<noteq>
     length (filter isPositive happy_replies)"
proof -
  note f = started_fresh [OF demo_started]
  note p = run_positives [OF demo_started happy_positive]
  note p9 = run_positives [OF demo_started take_happy_positive, of 9]
  have fp: "filter isPositive happy_replies = happy_replies"
    using happy_positive by (rule filter_all_positive)
  have "End \<notin> set (sock (run demo_session (map Data happy_replies)))"
    using run_data_no_end [OF happy_positive, of demo_session] f by simp
  then have "transmitted (sock (run demo_session (map Data happy_replies))) =
      written (sock (run demo_session (map Data happy_replies)))"
    by (rule transmitted_eq_written)
  then show ?thesis
    using p p9 f(4) by (simp add: fp happy_length)
qed


section \<open>Negative replies\<close>

text \<open>
  C2 (as amended). On a session that is still pending, that is, after Positive
  deliveries only, the first Negative delivery at stage \<open>k\<close> ends the socket at once and
  rejects the promise with the error \<open>SMTP Error: \<close> followed by the raw delivery; the
  error holds no stage. The stage stays \<open>k\<close>, the outcome never changes afterwards, and
  whatever events follow, the commands that reach the wire are exactly those below
  index \<open>k\<close>.
\<close>

theorem negative_reply_ends_and_rejects:
  assumes "sendViaHostinger opts mo now = (calls, Inr s0)"
    and "list_all isPositive pre"
    and "\<not> isPositive r"
  shows "stage (run s0 (map Data pre)) = min (length pre) 9 \<and>
         handle (Data r) (run s0 (map Data pre)) =
           (run s0 (map Data pre))
             \<lparr>sock := sock (run s0 (map Data pre)) @ [End],
              outcome := Rejected (Error (''SMTP Error: '' @ r))\<rparr> \<and>
         outcome (run s0 (map Data pre @ Data r # post)) =
           Rejected (Error (''SMTP Error: '' @ r)) \<and>
         transmitted (sock (run s0 (map Data pre @ Data r # post))) =
           take (min (length pre) 9) (commands s0)"
proof -
  note f = started_fresh [OF assms(1)]
  let ?s = "run s0 (map Data pre)"
  have st: "stage ?s = min (length pre) 9"
    using run_data_stage [of s0 pre] f by (simp add: filter_all_positive [OF assms(2)])
  have pend: "outcome ?s = Pending"
    using run_data_pending [OF assms(2), of s0] f by simp
  have noend: "End \<notin> set (sock ?s)"
    using run_data_no_end [OF assms(2), of s0] f by simp
  have inv: "session_inv ?s"
    using run_inv f(5) by blast
  have h: "on_data r ?s =
      ?s\<lparr>sock := sock ?s @ [End], outcome := Rejected (Error (''SMTP Error: '' @ r))\<rparr>"
    using assms(3) pend by (simp add: on_data_def reject_def socket_end_def)
  have split: "run s0 (map Data pre @ Data r # post) = run (on_data r ?s) post"
    by (simp add: run_append)
  have out: "outcome (run s0 (map Data pre @ Data r # post)) =
      Rejected (Error (''SMTP Error: '' @ r))"
    unfolding split using run_settled [of "on_data r ?s" post] h by simp
  have "transmitted (sock (run (on_data r ?s) post)) =
      transmitted (sock (on_data r ?s))"
    by (rule run_transmitted_ended) (simp add: h)
  also have "\<dots> = transmitted (sock ?s)"
    using noend by (simp add: h transmitted_append)
  also have "\<dots> = take (min (length pre) 9) (commands s0)"
    using noend inv st by (simp add: transmitted_eq_written session_inv_def)
  finally have tr: "transmitted (sock (run s0 (map Data pre @ Data r # post))) =
      take (min (length pre) 9) (commands s0)"
    unfolding split .
  show ?thesis using st h out tr by simp
qed

theorem negative_reply_ends_and_rejects_witness:
  "outcome (run demo_session (map Data (take 5 happy_replies) @ [Data relay_denied, Close])) =
     Rejected (Error (''SMTP Error: '' @ relay_denied)) \<and>
   transmitted (sock (run demo_session
       (map Data (take 5 happy_replies) @ [Data relay_denied, Close]))) =
     take 5 (commands demo_session)"
  using negative_reply_ends_and_rejects
    [OF demo_started take_happy_positive relay_denied_negative, of 5 "[Close]"]
  by (simp add: happy_length)

text \<open>
  C2 as stated fails on the stage: the recipient refused at stage 5 and the same reply
  at stage 0 give the same outcome, so the outcome does not tell the stage.
\<close>

theorem rejection_does_not_record_stage:
  "stage (run demo_session [Data relay_denied]) = 0 \<and>
   stage (run demo_session (map Data (take 5 happy_replies) @ [Data relay_denied])) = 5 \<and>
   outcome (run demo_session (map Data (take 5 happy_replies) @ [Data relay_denied])) =
     outcome (run demo_session [Data relay_denied])"
proof -
  note f = started_fresh [OF demo_started]
  let ?s = "run demo_session (map Data (take 5 happy_replies))"
  have st: "stage ?s = 5"
    using run_data_stage [of demo_session "take 5 happy_replies"] f
    by (simp add: filter_all_positive [OF take_happy_positive] happy_length)
  have pend: "outcome ?s = Pending"
    using run_data_pending [OF take_happy_positive, of demo_session 5] f by simp
  have a: "stage (run demo_session [Data relay_denied]) = 0"
    using f relay_denied_negative by (simp add: on_data_def reject_def socket_end_def)
  have b: "outcome (run demo_session [Data relay_denied]) =
      Rejected (Error (''SMTP Error: '' @ relay_denied))"
    using f relay_denied_negative by (simp add: on_data_def reject_def socket_end_def)
  have c: "run demo_session (map Data (take 5 happy_replies) @ [Data relay_denied]) =
      on_data relay_denied ?s"
    by (simp add: run_append)
  have d: "stage (on_data relay_denied ?s) = 5"
    using st relay_denied_negative by (simp add: on_data_def reject_def socket_end_def)
  have e: "outcome (on_data relay_denied ?s) = Rejected (Error (''SMTP Error: '' @ relay_denied))"
    using pend relay_denied_negative by (simp add: on_data_def reject_def socket_end_def)
  show ?thesis using a b c d e by simp
qed


section \<open>The close event\<close>

text \<open>
  C4 (as amended). When the close event is the first terminal event, that is, after
  Positive deliveries only: if the stage pointer has reached at least 8 (the message
  content has been written; QUIT itself is written when the stage becomes 9) the promise
  resolves with the message identifier; otherwise it is rejected with the fixed error
  \<open>SMTP connection closed prematurely\<close>, which holds no stage.
\<close>

theorem close_resolves_from_stage_eight:
  assumes "sendViaHostinger opts mo now = (calls, Inr s0)"
    and "list_all isPositive ds"
  shows "stage (run s0 (map Data ds)) = min (length ds) 9 \<and>
         written (sock (run s0 (map Data ds @ [Close]))) = take (min (length ds) 9) (commands s0) \<and>
         outcome (run s0 (map Data ds @ [Close])) =
           (if 8 \<le> stage (run s0 (map Data ds)) then Resolved (messageId s0)
            else Rejected (Error ''SMTP connection closed prematurely''))"
proof -
  note f = started_fresh [OF assms(1)]
  note p = run_positives [OF assms]
  have "run s0 (map Data ds @ [Close]) = on_close (run s0 (map Data ds))"
    by (simp add: run_append)
  then show ?thesis
    using p f(4) by (simp add: on_close_pending)
qed

theorem close_resolves_from_stage_eight_witness:
  "outcome (run demo_session (map Data (take 3 happy_replies) @ [Close])) =
     Rejected (Error ''SMTP connection closed prematurely'') \<and>
   outcome (run demo_session (map Data happy_replies @ [Close])) =
     Resolved (messageId demo_session)"
  using close_resolves_from_stage_eight [OF demo_started take_happy_positive, of 3]
    close_resolves_from_stage_eight [OF demo_started happy_positive]
  by (simp add: happy_length)

text \<open>
  C4 as stated fails twice: at stage 8 the close resolves successfully although QUIT,
  the command at index 8, has not been written; and a premature close at stage 3 and one
  at stage 6 give the same outcome, so the outcome does not tell the stage.
\<close>

theorem close_at_stage_eight_precedes_quit:
  "stage (run demo_session (map Data (take 8 happy_replies))) = 8 \<and>
   written (sock (run demo_session (map Data (take 8 happy_replies) @ [Close]))) =
     take 8 (commands demo_session) \<and>
   commands demo_session ! 8 = ''QUIT'' @ CRLF \<and>
   ''QUIT'' @ CRLF \<notin> set (take 8 (commands demo_session)) \<and>
   outcome (run demo_session (map Data (take 8 happy_replies) @ [Close])) =
     Resolved (messageId demo_session) \<and>
   stage (run demo_session (map Data (take 3 happy_replies))) = 3 \<and>
   stage (run demo_session (map Data (take 6 happy_replies))) = 6 \<and>
   outcome (run demo_session (map Data (take 3 happy_replies) @ [Close])) =
     outcome (run demo_session (map Data (take 6 happy_replies) @ [Close]))"
proof -
  note f = started_fresh [OF demo_started]
  note p8 = run_positives [OF demo_started take_happy_positive, of 8]
  note p3 = run_positives [OF demo_started take_happy_positive, of 3]
  note p6 = run_positives [OF demo_started take_happy_positive, of 6]
  have c: "\<And>n. run demo_session (map Data (take n happy_replies) @ [Close]) =
      on_close (run demo_session (map Data (take n happy_replies)))"
    by (simp add: run_append)
  have q: "commands demo_session ! 8 = ''QUIT'' @ CRLF"
    by (simp add: demo_commands)
  have nq: "''QUIT'' @ CRLF \<notin> set (take 8 (commands demo_session))"
    by (simp add: demo_commands CRLF_def data_payload_def)
  show ?thesis
    using p8 p3 p6 f(4) q nq by (simp add: c on_close_pending happy_length)
qed





section \<open>Deliveries and replies\<close>

text \<open>
  C3 (as amended). The \<open>data\<close> handler keeps no buffer and has no Incomplete class.
  Each delivery is classified exactly once, from its first character alone: Positive when
  it starts with \<open>2\<close> or \<open>3\<close>, Negative otherwise (the empty delivery included). Whatever
  follows the first character does not matter: a delivery that batches several replies
  is classified as its first reply, a fragment of a reply is classified on its own, two
  Positive deliveries have the same effect, and one delivery sends at most one command.
\<close>

theorem delivery_classified_by_first_character:
  "(isPositive r \<longleftrightarrow> (\<exists>c rest. r = c # rest \<and> (c = CHR ''2'' \<or> c = CHR ''3''))) \<and>
   (a \<noteq> [] \<longrightarrow> isPositive (a @ b) = isPositive a) \<and>
   (isPositive r \<and> isPositive r' \<longrightarrow> on_data r s = on_data r' s) \<and>
   (\<not> isPositive r \<and> outcome s = Pending \<longrightarrow>
      outcome (on_data r s) = Rejected (Error (''SMTP Error: '' @ r)) \<and>
      stage (on_data r s) = stage s) \<and>
   stage (on_data r s) \<le> stage s + 1 \<and>
   length (written (sock (on_data r s))) \<le> length (written (sock s)) + 1"
proof -
  have 1: "isPositive r \<longleftrightarrow> (\<exists>c rest. r = c # rest \<and> (c = CHR ''2'' \<or> c = CHR ''3''))"
    by (rule isPositive_iff)
  have 2: "a \<noteq> [] \<longrightarrow> isPositive (a @ b) = isPositive a"
    by (simp add: isPositive_append)
  have 3: "isPositive r \<and> isPositive r' \<longrightarrow> on_data r s = on_data r' s"
    by (simp add: on_data_positive)
  have 4: "\<not> isPositive r \<and> outcome s = Pending \<longrightarrow>
      outcome (on_data r s) = Rejected (Error (''SMTP Error: '' @ r)) \<and>
      stage (on_data r s) = stage s"
    by (simp add: on_data_negative)
  have 5: "stage (on_data r s) \<le> stage s + 1"
    by (cases "isPositive r") (simp_all add: on_data_positive on_data_negative)
  have 6: "length (written (sock (on_data r s))) \<le> length (written (sock s)) + 1"
    by (cases "isPositive r") (simp_all add: on_data_positive on_data_negative written_append)
  show ?thesis using 1 2 3 4 5 6 by blast
qed

theorem delivery_classified_by_first_character_witness:
  "isPositive ''22'' \<and>
   isPositive (''220 ready'' @ CRLF @ ''550 no'' @ CRLF) \<and>
   on_data ''22'' demo_session = on_data (''220 ready'' @ CRLF) demo_session \<and>
   outcome (on_data [] demo_session) = Rejected (Error ''SMTP Error: '')"
proof -
  note f = started_fresh [OF demo_started]
  have a: "isPositive ''22''"
    using delivery_classified_by_first_character [of "''22''"] by simp
  have b: "isPositive (''220 ready'' @ CRLF)"
    using delivery_classified_by_first_character [of "''220 ready'' @ CRLF"] by simp
  have c: "isPositive (''220 ready'' @ CRLF @ ''550 no'' @ CRLF)"
    using delivery_classified_by_first_character
      [of "''220 ready'' @ CRLF @ ''550 no'' @ CRLF"] by simp
  have d: "\<not> isPositive []"
    using delivery_classified_by_first_character [of "[]"] by simp
  show ?thesis
    using a b c d f(3)
      delivery_classified_by_first_character [of "''22''" _ _ "''220 ready'' @ CRLF" demo_session]
      delivery_classified_by_first_character [of "[]" _ _ _ demo_session]
    by simp
qed

text \<open>
  C3 as stated fails. The ten replies of an accepting server, one per delivery and then
  the close, give the success; the same bytes batched into one delivery give a premature
  close at stage 1; and when the greeting arrives split as \<open>22\<close> and \<open>0 ready\<close>, the
  first fragment, which holds no complete line, advances the stage and the second is
  taken for a Negative reply.
\<close>

theorem split_and_batched_replies_differ:
  "outcome (run demo_session (map Data happy_replies @ [Close])) =
     Resolved (messageId demo_session) \<and>
   outcome (run demo_session [Data (concat happy_replies), Close]) =
     Rejected (Error ''SMTP connection closed prematurely'') \<and>
   ''22'' @ ''0 ready'' @ CRLF = happy_replies ! 0 \<and>
   stage (run demo_session [Data ''22'']) = 1 \<and>
   outcome (run demo_session [Data ''22'', Data (''0 ready'' @ CRLF)]) =
     Rejected (Error (''SMTP Error: 0 ready'' @ CRLF))"
proof -
  note f = started_fresh [OF demo_started]
  note p = run_positives [OF demo_started happy_positive]
  have "run demo_session (map Data happy_replies @ [Close]) =
      on_close (run demo_session (map Data happy_replies))"
    by (simp add: run_append)
  then have a: "outcome (run demo_session (map Data happy_replies @ [Close])) =
      Resolved (messageId demo_session)"
    using p f(4) by (simp add: on_close_pending happy_length)
  have pc: "isPositive (concat happy_replies)"
    by (simp add: happy_replies_def isPositive_iff)
  have b: "outcome (run demo_session [Data (concat happy_replies), Close]) =
      Rejected (Error ''SMTP connection closed prematurely'')"
    using f by (simp add: on_data_positive [OF pc] on_close_pending)
  have p22: "isPositive ''22''"
    by (simp add: isPositive_iff)
  define frag where "frag = ''0 ready'' @ CRLF"
  have n0: "\<not> isPositive frag"
    by (simp add: frag_def isPositive_iff)
  have c: "stage (run demo_session [Data ''22'']) = 1"
    using f by (simp add: on_data_positive [OF p22])
  have "outcome (run demo_session [Data ''22'', Data frag]) =
      Rejected (Error (''SMTP Error: '' @ frag))"
    using f by (simp add: on_data_positive [OF p22] on_data_negative [OF n0])
  then have d: "outcome (run demo_session [Data ''22'', Data (''0 ready'' @ CRLF)]) =
      Rejected (Error (''SMTP Error: 0 ready'' @ CRLF))"
    by (simp add: frag_def)
  have e: "''22'' @ ''0 ready'' @ CRLF = happy_replies ! 0"
    by (simp add: happy_replies_def)
  show ?thesis using a b c d e by simp
qed


section \<open>Settling once\<close>

text \<open>
  C7. On a pending session a Positive delivery leaves the promise pending, and each of
  close, timeout, transport error and a Negative delivery settles it. Once settled, the
  outcome is the same after any further events; a later close or transport error
  leaves the whole session as it is.
\<close>

theorem first_terminal_event_fixes_outcome:
  assumes "outcome s = Pending"
    and "\<forall>d. e = Data d \<longrightarrow> \<not> isPositive d"
  shows "(\<forall>d. isPositive d \<longrightarrow> outcome (handle (Data d) s) = Pending) \<and>
         outcome (handle e s) \<noteq> Pending \<and>
         outcome (run (handle e s) es) = outcome (handle e s) \<and>
         handle Close (run (handle e s) es) = run (handle e s) es \<and>
         handle (SockError err) (run (handle e s) es) = run (handle e s) es"
proof -
  have 1: "\<forall>d. isPositive d \<longrightarrow> outcome (handle (Data d) s) = Pending"
    using assms(1) by (simp add: on_data_positive)
  have 2: "outcome (handle e s) \<noteq> Pending"
    using assms by (cases e) (simp_all add: handler_defs)
  have 3: "outcome (run (handle e s) es) = outcome (handle e s)"
    using 2 by (rule run_settled)
  have 4: "outcome (run (handle e s) es) \<noteq> Pending"
    using 2 3 by simp
  show ?thesis
    using 1 2 3 settled_close [OF 4] settled_error [OF 4] by simp
qed

theorem first_terminal_event_fixes_outcome_witness:
  "outcome (run demo_session [Timeout, Close, Close]) =
     Rejected (Error ''SMTP connection timeout'') \<and>
   run demo_session [Timeout, Close, Close] = run demo_session [Timeout]"
proof -
  note f = started_fresh [OF demo_started]
  have t: "outcome (handle Timeout demo_session) = Rejected (Error ''SMTP connection timeout'')"
    using f(3) by (simp add: on_timeout_def reject_def socket_end_def)
  have h: "\<forall>d. Timeout = Data d \<longrightarrow> \<not> isPositive d"
    by simp
  note w1 = first_terminal_event_fixes_outcome [OF f(3) h, of "[]"]
  note w2 = first_terminal_event_fixes_outcome [OF f(3) h, of "[Close]"]
  note w3 = first_terminal_event_fixes_outcome [OF f(3) h, of "[Close, Close]"]
  show ?thesis using t w1 w2 w3 by simp
qed


section \<open>The message identifier\<close>

text \<open>
  C6. The route passes \<open>from = "senderName" <SMTP_USER>\<close>. For a sender name without
  \<open>@\<close> and an account \<open>local@domain\<close>, the part of \<open>from\<close> after its first \<open>@\<close> is the
  domain followed by the closing bracket of the address, so the identifier ends in two
  closing brackets: it does not match the pattern, and its domain part is not the domain
  of the sender, which \<open>EHLO\<close> gets from the account itself.
\<close>

theorem messageId_of_route_request_is_malformed:
  assumes "CHR ''@'' \<notin> set senderName" and "CHR ''@'' \<notin> set l" and "CHR ''@'' \<notin> set d"
  shows "make_messageId now (Str (sendEmail_from senderName (Str (l @ ''@'' @ d)))) =
           Inr (''<'' @ show_nat now @ ''@'' @ d @ ''>>'') \<and>
         \<not> spec_messageId_pattern (''<'' @ show_nat now @ ''@'' @ d @ ''>>'') \<and>
         split_domain (Str (l @ ''@'' @ d)) = Inr (Str d)"
proof -
  let ?pre = "[CHR 0x22] @ senderName @ [CHR 0x22] @ '' <'' @ l"
  have pre: "CHR ''@'' \<notin> set ?pre"
    using assms(1,2) by simp
  have post: "CHR ''@'' \<notin> set (d @ ''>'')"
    using assms(3) by simp
  have "sendEmail_from senderName (Str (l @ ''@'' @ d)) = ?pre @ CHR ''@'' # (d @ ''>'')"
    by (simp add: sendEmail_from_def)
  then have "js_split (CHR ''@'') (sendEmail_from senderName (Str (l @ ''@'' @ d))) =
      [?pre, d @ ''>'']"
    using js_split_at_sep [OF pre, of "d @ ''>''"] js_split_no_sep [OF post] by simp
  then have a: "make_messageId now (Str (sendEmail_from senderName (Str (l @ ''@'' @ d)))) =
      Inr (''<'' @ show_nat now @ ''@'' @ d @ ''>>'')"
    by (simp add: make_messageId_def split_domain_def at_index_def)
  have t: "takeWhile is_digit (show_nat now @ CHR ''@'' # (d @ ''>>'')) = show_nat now"
    and dr: "dropWhile is_digit (show_nat now @ CHR ''@'' # (d @ ''>>'')) =
      CHR ''@'' # (d @ ''>>'')"
    using digits_then_at [OF show_nat_digits, of now "d @ ''>>''"] by simp_all
  have bl: "butlast (d @ ''>>'') = d @ ''>''"
    by (simp add: butlast_append)
  have "\<not> list_all (\<lambda>x. x \<noteq> CHR ''@'' \<and> x \<noteq> CHR ''>'') (d @ ''>'')"
    by simp
  then have b: "\<not> spec_messageId_pattern (''<'' @ show_nat now @ ''@'' @ d @ ''>>'')"
    using t dr bl by (simp add: spec_messageId_pattern_def)
  show ?thesis
    using a b split_domain_address [OF assms(2,3)] by simp
qed

theorem messageId_of_route_request_is_malformed_witness:
  "messageId demo_session = ''<1700000000000@example.com>>'' \<and>
   \<not> spec_messageId_pattern (messageId demo_session) \<and>
   split_domain (auth_user demo_options) = Inr (Str ''example.com'')"
proof -
  have n: "show_nat 1700000000000 = ''1700000000000''"
    by (simp add: show_nat.simps digit_def)
  have "messageId demo_session = ''<1700000000000@example.com>>''"
    by (rule demo_messageId)
  then show ?thesis
    using messageId_of_route_request_is_malformed
      [of "''Alice''" "''user''" "''example.com''" 1700000000000]
    by (simp add: n demo_options_def)
qed


section \<open>The envelope\<close>

text \<open>
  C8. When the account, the secret and the \<open>from\<close> field are present, the executor,
  once \<open>tls.connect\<close> has accepted the port, starts a session whose envelope is
  exactly nine commands, each ending in CRLF, in this order: EHLO with the part
  of the account after its first \<open>@\<close> (the domain, for an account \<open>local@domain\<close>),
  AUTH LOGIN, the base64 of the account, the base64 of the secret, MAIL FROM with the
  account (not the \<open>from\<close> field of the request), RCPT TO with the recipient, DATA, the
  header block From, To, Subject, Message-ID, Content-Type followed by a blank line, the
  HTML body or else the plain text, and CRLF dot CRLF, and QUIT.
\<close>

theorem envelope_is_the_nine_commands:
  assumes "auth_user opts = Str u" and "auth_pass opts = Str p" and "mail_from mo = Str f"
  shows "\<exists>s. build_session opts mo now = Inr s \<and>
           sendViaHostinger opts mo now =
             (if validPort (port opts) then ([TlsConnect, SetTimeout 10000], Inr s)
              else ([], Inl RangeError)) \<and>
           commands s =
             [''EHLO '' @ template (at_index (js_split (CHR ''@'') u) 1) @ CRLF,
              ''AUTH LOGIN'' @ CRLF,
              base64 (map of_char u) @ CRLF,
              base64 (map of_char p) @ CRLF,
              ''MAIL FROM:<'' @ u @ ''>'' @ CRLF,
              ''RCPT TO:<'' @ template (mail_to mo) @ ''>'' @ CRLF,
              ''DATA'' @ CRLF,
              ''From: '' @ f @ CRLF @
              ''To: '' @ template (mail_to mo) @ CRLF @
              ''Subject: '' @ template (mail_subject mo) @ CRLF @
              ''Message-ID: '' @ messageId s @ CRLF @
              ''Content-Type: text/html; charset=utf-8'' @ CRLF @
              CRLF @
              (if truthy (mail_html mo) then template (mail_html mo)
               else template (mail_text mo)) @
              CRLF @ ''.'' @ CRLF,
              ''QUIT'' @ CRLF] \<and>
           length (commands s) = 9 \<and>
           list_all (\<lambda>c. \<exists>b. c = b @ CRLF) (commands s) \<and>
           (\<forall>l d. u = l @ ''@'' @ d \<and> CHR ''@'' \<notin> set l \<and> CHR ''@'' \<notin> set d \<longrightarrow>
              commands s ! 0 = ''EHLO '' @ d @ CRLF)"
proof -
  let ?mid = "''<'' @ show_nat now @ ''@'' @ template (at_index (js_split (CHR ''@'') f) 1) @ ''>''"
  have "\<exists>s. build_session opts mo now = Inr s \<and>
      messageId s = ?mid \<and>
      commands s =
             [''EHLO '' @ template (at_index (js_split (CHR ''@'') u) 1) @ CRLF,
              ''AUTH LOGIN'' @ CRLF,
              base64 (map of_char u) @ CRLF,
              base64 (map of_char p) @ CRLF,
              ''MAIL FROM:<'' @ u @ ''>'' @ CRLF,
              ''RCPT TO:<'' @ template (mail_to mo) @ ''>'' @ CRLF,
              ''DATA'' @ CRLF,
              data_payload mo ?mid,
              ''QUIT'' @ CRLF]"
    unfolding started_present [OF assms] by simp
  then obtain s where st: "build_session opts mo now = Inr s"
    and mid: "messageId s = ?mid"
    and cs: "commands s =
             [''EHLO '' @ template (at_index (js_split (CHR ''@'') u) 1) @ CRLF,
              ''AUTH LOGIN'' @ CRLF,
              base64 (map of_char u) @ CRLF,
              base64 (map of_char p) @ CRLF,
              ''MAIL FROM:<'' @ u @ ''>'' @ CRLF,
              ''RCPT TO:<'' @ template (mail_to mo) @ ''>'' @ CRLF,
              ''DATA'' @ CRLF,
              data_payload mo ?mid,
              ''QUIT'' @ CRLF]"
    by blast
  have c1: "commands s =
             [''EHLO '' @ template (at_index (js_split (CHR ''@'') u) 1) @ CRLF,
              ''AUTH LOGIN'' @ CRLF,
              base64 (map of_char u) @ CRLF,
              base64 (map of_char p) @ CRLF,
              ''MAIL FROM:<'' @ u @ ''>'' @ CRLF,
              ''RCPT TO:<'' @ template (mail_to mo) @ ''>'' @ CRLF,
              ''DATA'' @ CRLF,
              ''From: '' @ f @ CRLF @
              ''To: '' @ template (mail_to mo) @ CRLF @
              ''Subject: '' @ template (mail_subject mo) @ CRLF @
              ''Message-ID: '' @ messageId s @ CRLF @
              ''Content-Type: text/html; charset=utf-8'' @ CRLF @
              CRLF @
              (if truthy (mail_html mo) then template (mail_html mo)
               else template (mail_text mo)) @
              CRLF @ ''.'' @ CRLF,
              ''QUIT'' @ CRLF]"
    using assms(3) by (simp add: cs mid data_payload_def js_or_def)
  have c2: "length (commands s) = 9"
    by (simp add: cs)
  have c3: "list_all (\<lambda>c. \<exists>b. c = b @ CRLF) (commands s)"
    unfolding cs data_payload_def list_all_Cons_iff list_all_Nil_iff
    by (intro conjI TrueI ends_crlf_app ends_crlf_self)
  have c4: "\<forall>l d. u = l @ ''@'' @ d \<and> CHR ''@'' \<notin> set l \<and> CHR ''@'' \<notin> set d \<longrightarrow>
      commands s ! 0 = ''EHLO '' @ d @ CRLF"
    by (auto simp: cs js_split_at_sep js_split_no_sep at_index_def)
  have c0: "sendViaHostinger opts mo now =
      (if validPort (port opts) then ([TlsConnect, SetTimeout 10000], Inr s)
       else ([], Inl RangeError))"
    by (simp add: sendViaHostinger_def st)
  show ?thesis
    using st c0 c1 c2 c3 c4 by blast
qed

theorem envelope_is_the_nine_commands_witness:
  "commands demo_session =
     [''EHLO example.com'' @ CRLF, ''AUTH LOGIN'' @ CRLF,
      ''dXNlckBleGFtcGxlLmNvbQ=='' @ CRLF, ''c2VjcmV0'' @ CRLF,
      ''MAIL FROM:<user@example.com>'' @ CRLF, ''RCPT TO:<bob@example.org>'' @ CRLF,
      ''DATA'' @ CRLF,
      ''From: '' @ [CHR 0x22] @ ''Alice'' @ [CHR 0x22] @ '' <user@example.com>'' @ CRLF @
      ''To: bob@example.org'' @ CRLF @ ''Subject: Hi'' @ CRLF @
      ''Message-ID: <1700000000000@example.com>>'' @ CRLF @
      ''Content-Type: text/html; charset=utf-8'' @ CRLF @ CRLF @
      ''Hello'' @ CRLF @ ''.'' @ CRLF,
      ''QUIT'' @ CRLF]"
proof -
  have u: "auth_user demo_options = Str ''user@example.com''"
    and p: "auth_pass demo_options = Str ''secret''"
    and f: "mail_from demo_mail = Str (sendEmail_from ''Alice'' (Str ''user@example.com''))"
    by (simp_all add: demo_options_def demo_mail_def)
  obtain s where s: "sendViaHostinger demo_options demo_mail demo_now =
        (if validPort (port demo_options) then ([TlsConnect, SetTimeout 10000], Inr s)
         else ([], Inl RangeError))"
    and c: "commands s =
             [''EHLO '' @ template (at_index (js_split (CHR ''@'') ''user@example.com'') 1) @ CRLF,
              ''AUTH LOGIN'' @ CRLF,
              base64 (map of_char ''user@example.com'') @ CRLF,
              base64 (map of_char ''secret'') @ CRLF,
              ''MAIL FROM:<'' @ ''user@example.com'' @ ''>'' @ CRLF,
              ''RCPT TO:<'' @ template (mail_to demo_mail) @ ''>'' @ CRLF,
              ''DATA'' @ CRLF,
              ''From: '' @ sendEmail_from ''Alice'' (Str ''user@example.com'') @ CRLF @
              ''To: '' @ template (mail_to demo_mail) @ CRLF @
              ''Subject: '' @ template (mail_subject demo_mail) @ CRLF @
              ''Message-ID: '' @ messageId s @ CRLF @
              ''Content-Type: text/html; charset=utf-8'' @ CRLF @
              CRLF @
              (if truthy (mail_html demo_mail) then template (mail_html demo_mail)
               else template (mail_text demo_mail)) @
              CRLF @ ''.'' @ CRLF,
              ''QUIT'' @ CRLF]"
    using envelope_is_the_nine_commands [OF u p f, of demo_now] by blast
  have "validPort (port demo_options)"
    by (simp add: demo_options_def validPort_def)
  then have "s = demo_session"
    using s demo_started by simp
  then show ?thesis
    using c by (simp add: demo_messageId demo_mail_def at_index_def b64_char_def
        sendEmail_from_def)
qed


section \<open>Absent inputs\<close>

text \<open>
  C9 (as amended). \<open>sendMail\<close> has no validation step and no error of its own for a
  malformed request. In local mode it stores the mail and returns an id whatever is
  absent. Otherwise, a port that is absent or not a port number makes \<open>tls.connect\<close>
  throw a RangeError before any socket call. With a valid port the TLS socket is opened
  and the timeout armed first; then an absent \<open>from\<close>, account or secret makes the
  promise reject with a TypeError. Nothing else fails: an absent host is not detected,
  and with an absent recipient the session is built with the text \<open>undefined\<close> or
  \<open>null\<close> in RCPT TO and in the To header.
\<close>

theorem send_fails_only_where_a_call_throws:
  "sendMail opts mo now =
     (if localMode opts then Stored (show_nat now)
      else if \<not> validPort (port opts) then Smtp [] (Inl RangeError)
      else if mail_from mo \<in> {Undefined, Null} \<or> auth_user opts \<in> {Undefined, Null} \<or>
              auth_pass opts \<in> {Undefined, Null}
      then Smtp [TlsConnect, SetTimeout 10000] (Inl TypeError)
      else Smtp [TlsConnect, SetTimeout 10000] (build_session opts mo now)) \<and>
   (mail_from mo \<notin> {Undefined, Null} \<and> auth_user opts \<notin> {Undefined, Null} \<and>
    auth_pass opts \<notin> {Undefined, Null} \<longrightarrow>
      (\<exists>s. build_session opts mo now = Inr s \<and>
           commands s ! 5 = ''RCPT TO:<'' @ template (mail_to mo) @ ''>'' @ CRLF \<and>
           (\<exists>rest. commands s ! 7 =
              ''From: '' @ template (mail_from mo) @ CRLF @
              ''To: '' @ template (mail_to mo) @ CRLF @ rest)))"
proof -
  let ?absent = "mail_from mo \<in> {Undefined, Null} \<or> auth_user opts \<in> {Undefined, Null} \<or>
      auth_pass opts \<in> {Undefined, Null}"
  have err: "?absent \<Longrightarrow> build_session opts mo now = Inl TypeError"
  proof -
    assume ?absent
    then obtain e where "build_session opts mo now = Inl e"
      using build_error_iff [of opts mo now] by blast
    then show ?thesis
      using build_error_type by blast
  qed
  have 1: "sendMail opts mo now =
     (if localMode opts then Stored (show_nat now)
      else if \<not> validPort (port opts) then Smtp [] (Inl RangeError)
      else if ?absent then Smtp [TlsConnect, SetTimeout 10000] (Inl TypeError)
      else Smtp [TlsConnect, SetTimeout 10000] (build_session opts mo now))"
    using err by (simp add: sendMail_def sendViaHostinger_def)
  have 2: "\<exists>s. build_session opts mo now = Inr s \<and>
           commands s ! 5 = ''RCPT TO:<'' @ template (mail_to mo) @ ''>'' @ CRLF \<and>
           (\<exists>rest. commands s ! 7 =
              ''From: '' @ template (mail_from mo) @ CRLF @
              ''To: '' @ template (mail_to mo) @ CRLF @ rest)"
    if na: "\<not> ?absent"
  proof -
    from na obtain f where f: "mail_from mo = Str f"
      by (cases "mail_from mo") auto
    from na obtain u where u: "auth_user opts = Str u"
      by (cases "auth_user opts") auto
    from na obtain p where p: "auth_pass opts = Str p"
      by (cases "auth_pass opts") auto
    show ?thesis
      unfolding started_present [OF u p f]
      by (simp add: data_payload_def f)
  qed
  show ?thesis
    using 1 2 by blast
qed

theorem send_fails_only_where_a_call_throws_witness:
  "sendMail (demo_options\<lparr>port := None\<rparr>) demo_mail demo_now = Smtp [] (Inl RangeError) \<and>
   sendMail demo_options (demo_mail\<lparr>mail_from := Null\<rparr>) demo_now =
     Smtp [TlsConnect, SetTimeout 10000] (Inl TypeError) \<and>
   sendMail (demo_options\<lparr>host := Undefined\<rparr>) demo_mail demo_now =
     Smtp [TlsConnect, SetTimeout 10000] (Inr demo_session) \<and>
   commands demo_session ! 5 = ''RCPT TO:<bob@example.org>'' @ CRLF"
proof -
  have b: "build_session demo_options demo_mail demo_now = Inr demo_session"
    using demo_started by (simp add: sendViaHostinger_def split: if_splits)
  have b': "build_session (demo_options\<lparr>host := Undefined\<rparr>) demo_mail demo_now =
      build_session demo_options demo_mail demo_now"
    by (simp add: build_session_def make_commands_def cong: sum.case_cong)
  have 1: "sendMail (demo_options\<lparr>port := None\<rparr>) demo_mail demo_now =
      Smtp [] (Inl RangeError)"
    using conjunct1 [OF send_fails_only_where_a_call_throws
        [of "demo_options\<lparr>port := None\<rparr>" demo_mail demo_now]]
    by (simp add: demo_options_def validPort_def)
  have 2: "sendMail demo_options (demo_mail\<lparr>mail_from := Null\<rparr>) demo_now =
      Smtp [TlsConnect, SetTimeout 10000] (Inl TypeError)"
    using conjunct1 [OF send_fails_only_where_a_call_throws
        [of demo_options "demo_mail\<lparr>mail_from := Null\<rparr>" demo_now]]
    by (simp add: demo_options_def validPort_def)
  have 3: "sendMail (demo_options\<lparr>host := Undefined\<rparr>) demo_mail demo_now =
      Smtp [TlsConnect, SetTimeout 10000] (Inr demo_session)"
  proof -
    have "\<not> localMode (demo_options\<lparr>host := Undefined\<rparr>)"
      and "validPort (port (demo_options\<lparr>host := Undefined\<rparr>))"
      and "mail_from demo_mail \<notin> {Undefined, Null}"
      and "auth_user (demo_options\<lparr>host := Undefined\<rparr>) \<notin> {Undefined, Null}"
      and "auth_pass (demo_options\<lparr>host := Undefined\<rparr>) \<notin> {Undefined, Null}"
      by (simp_all add: demo_options_def demo_mail_def validPort_def)
    then show ?thesis
      using conjunct1 [OF send_fails_only_where_a_call_throws
          [of "demo_options\<lparr>host := Undefined\<rparr>" demo_mail demo_now]]
      by (simp add: b b')
  qed
  have present: "mail_from demo_mail \<notin> {Undefined, Null} \<and>
      auth_user demo_options \<notin> {Undefined, Null} \<and>
      auth_pass demo_options \<notin> {Undefined, Null}"
    by (simp add: demo_options_def demo_mail_def)
  obtain s where s: "build_session demo_options demo_mail demo_now = Inr s"
    and c: "commands s ! 5 = ''RCPT TO:<'' @ template (mail_to demo_mail) @ ''>'' @ CRLF"
    using conjunct2 [OF send_fails_only_where_a_call_throws
        [of demo_options demo_mail demo_now]] present
    by blast
  have "s = demo_session"
    using s b by simp
  then have 4: "commands demo_session ! 5 = ''RCPT TO:<bob@example.org>'' @ CRLF"
    using c by (simp add: demo_mail_def)
  show ?thesis using 1 2 3 4 by simp
qed

text \<open>
  C9 as stated fails. With the recipient absent the session starts, sends
  \<open>RCPT TO:<undefined>\<close> and the header \<open>To: undefined\<close>, and succeeds when the server
  accepts; with \<open>from\<close> absent the failure is a TypeError raised after the socket has
  been opened.
\<close>

theorem absent_recipient_is_sent:
  "sendMail demo_options (demo_mail\<lparr>mail_to := Undefined\<rparr>) demo_now =
     Smtp [TlsConnect, SetTimeout 10000] (Inr no_recipient_session) \<and>
   commands no_recipient_session ! 5 = ''RCPT TO:<undefined>'' @ CRLF \<and>
   commands no_recipient_session ! 7 =
     ''From: '' @ [CHR 0x22] @ ''Alice'' @ [CHR 0x22] @ '' <user@example.com>'' @ CRLF @
     ''To: undefined'' @ CRLF @ ''Subject: Hi'' @ CRLF @
     ''Message-ID: <1700000000000@example.com>>'' @ CRLF @
     ''Content-Type: text/html; charset=utf-8'' @ CRLF @ CRLF @
     ''Hello'' @ CRLF @ ''.'' @ CRLF \<and>
   outcome (run no_recipient_session (map Data happy_replies @ [Close])) =
     Resolved (messageId no_recipient_session) \<and>
   sendMail demo_options (demo_mail\<lparr>mail_from := Undefined\<rparr>) demo_now =
     Smtp [TlsConnect, SetTimeout 10000] (Inl TypeError)"
proof -
  note f = started_fresh [OF no_recipient_started]
  note p = run_positives [OF no_recipient_started happy_positive]
  have a: "sendMail demo_options (demo_mail\<lparr>mail_to := Undefined\<rparr>) demo_now =
      Smtp [TlsConnect, SetTimeout 10000] (Inr no_recipient_session)"
    using no_recipient_started by (simp add: sendMail_def demo_options_def)
  have m: "messageId no_recipient_session = ''<1700000000000@example.com>>''"
    by (simp add: no_recipient_session_def sendViaHostinger_def build_session_def validPort_def
        make_messageId_def make_commands_def split_domain_def to_base64_def demo_options_def
        demo_mail_def at_index_def demo_now_def sendEmail_from_def show_nat.simps digit_def)
  obtain d u64 p64 where cs: "commands no_recipient_session =
             [''EHLO '' @ d @ CRLF, ''AUTH LOGIN'' @ CRLF, u64 @ CRLF, p64 @ CRLF,
              ''MAIL FROM:<'' @ template (auth_user demo_options) @ ''>'' @ CRLF,
              ''RCPT TO:<'' @ template (mail_to (demo_mail\<lparr>mail_to := Undefined\<rparr>)) @ ''>'' @ CRLF,
              ''DATA'' @ CRLF,
              data_payload (demo_mail\<lparr>mail_to := Undefined\<rparr>) (messageId no_recipient_session),
              ''QUIT'' @ CRLF]"
    using started_commands [OF no_recipient_started] by blast
  have b: "commands no_recipient_session ! 5 = ''RCPT TO:<undefined>'' @ CRLF"
    by (simp add: cs)
  have b7: "commands no_recipient_session ! 7 =
     ''From: '' @ [CHR 0x22] @ ''Alice'' @ [CHR 0x22] @ '' <user@example.com>'' @ CRLF @
     ''To: undefined'' @ CRLF @ ''Subject: Hi'' @ CRLF @
     ''Message-ID: <1700000000000@example.com>>'' @ CRLF @
     ''Content-Type: text/html; charset=utf-8'' @ CRLF @ CRLF @
     ''Hello'' @ CRLF @ ''.'' @ CRLF"
    by (simp add: cs m data_payload_def demo_mail_def sendEmail_from_def js_or_def)
  have "run no_recipient_session (map Data happy_replies @ [Close]) =
      on_close (run no_recipient_session (map Data happy_replies))"
    by (simp add: run_append)
  then have c: "outcome (run no_recipient_session (map Data happy_replies @ [Close])) =
      Resolved (messageId no_recipient_session)"
    using p f(4) by (simp add: on_close_pending happy_length)
  have d: "sendMail demo_options (demo_mail\<lparr>mail_from := Undefined\<rparr>) demo_now =
      Smtp [TlsConnect, SetTimeout 10000] (Inl TypeError)"
    by (simp add: sendMail_def sendViaHostinger_def build_session_def validPort_def
        make_messageId_def split_domain_def demo_options_def demo_mail_def)
  show ?thesis using a b b7 c d by simp
qed


section \<open>The content type\<close>

text \<open>
  C10. In every session the eighth command is the four header lines From, To, Subject
  and Message-ID, then the line \<open>Content-Type: text/html; charset=utf-8\<close>, a blank line,
  the body and the terminator; the Content-Type line is the same whether the body is
  the HTML body or, that one being absent or empty, the plain text.
\<close>

theorem content_type_is_always_html:
  assumes "sendViaHostinger opts mo now = (calls, Inr s)"
  shows "commands s ! 7 =
           (''From: '' @ template (mail_from mo) @ CRLF @
            ''To: '' @ template (mail_to mo) @ CRLF @
            ''Subject: '' @ template (mail_subject mo) @ CRLF @
            ''Message-ID: '' @ messageId s @ CRLF) @
           ''Content-Type: text/html; charset=utf-8'' @ CRLF @
           CRLF @
           (if truthy (mail_html mo) then template (mail_html mo)
            else template (mail_text mo)) @
           CRLF @ ''.'' @ CRLF"
proof -
  obtain d u64 p64 where "commands s =
             [''EHLO '' @ d @ CRLF, ''AUTH LOGIN'' @ CRLF, u64 @ CRLF, p64 @ CRLF,
              ''MAIL FROM:<'' @ template (auth_user opts) @ ''>'' @ CRLF,
              ''RCPT TO:<'' @ template (mail_to mo) @ ''>'' @ CRLF,
              ''DATA'' @ CRLF, data_payload mo (messageId s), ''QUIT'' @ CRLF]"
    using started_commands [OF assms] by blast
  then show ?thesis
    by (simp add: data_payload_def js_or_def)
qed

theorem content_type_is_always_html_witness:
  "commands plain_session ! 7 =
     ''From: '' @ [CHR 0x22] @ ''Alice'' @ [CHR 0x22] @ '' <user@example.com>'' @ CRLF @
     ''To: bob@example.org'' @ CRLF @ ''Subject: Hi'' @ CRLF @
     ''Message-ID: '' @ messageId plain_session @ CRLF @
     ''Content-Type: text/html; charset=utf-8'' @ CRLF @ CRLF @
     ''Hello'' @ CRLF @ ''.'' @ CRLF"
  using content_type_is_always_html [OF plain_started]
  by (simp add: demo_mail_def sendEmail_from_def)

end
